theory Spec2Isabelle
  imports Complex_Main
begin

section \<open>Python values and errors\<close>

text \<open>
  Coordinates and sample values are Python floats; they are modelled as reals. The
  selection code only compares, takes minima and maxima and indexes, which is exact on
  floats; where arithmetic is involved (degrees, trigonometry) the model is the
  real-number reading of the formula.
\<close>

datatype error = TypeError | IndexError | ValueError

type_synonym coord = "real \<times> real"
  \<comment> \<open>a GeoJSON position \<open>[long, lat]\<close>\<close>

type_synonym mask_array = "bool list list"
  \<comment> \<open>rows (latitude) of columns (longitude); \<open>True\<close> = masked out\<close>

definition py_index :: "nat \<Rightarrow> int \<Rightarrow> error + nat" where
  \<comment> \<open>index normalisation of \<open>xs[i]\<close>: negative indices count from the end\<close>
  "py_index n i =
     (let j = (if i < 0 then i + int n else i)
      in if 0 \<le> j \<and> j < int n then Inr (nat j) else Inl IndexError)"

definition getitem :: "'a list \<Rightarrow> int \<Rightarrow> error + 'a" where
  "getitem xs i = (case py_index (length xs) i of Inl e \<Rightarrow> Inl e | Inr j \<Rightarrow> Inr (xs ! j))"

definition py_range :: "int \<Rightarrow> int \<Rightarrow> int list" where
  "py_range lo hi = [lo..hi - 1]"

definition slice_bound :: "nat \<Rightarrow> int \<Rightarrow> nat" where
  \<comment> \<open>how a slice bound is adjusted to a sequence of length \<open>n\<close> (step 1)\<close>
  "slice_bound n i =
     (if i < 0 then (if i + int n < 0 then 0 else nat (i + int n))
      else if int n < i then n else nat i)"

definition in_slice :: "nat \<Rightarrow> int \<Rightarrow> int \<Rightarrow> nat \<Rightarrow> bool" where
  "in_slice n lo hi j \<longleftrightarrow> slice_bound n lo \<le> j \<and> j < slice_bound n hi"


section \<open>selection.py\<close>

subsection \<open>Index narrowing\<close>

text \<open>
  \<open>np.searchsorted(a, v)\<close> with the default \<open>side='left'\<close>: a binary search for the
  insertion point of \<open>v\<close> in \<open>a\<close>.
\<close>

function bisect_left :: "real list \<Rightarrow> real \<Rightarrow> nat \<Rightarrow> nat \<Rightarrow> nat" where
  "bisect_left a v lo hi =
     (if lo < hi
      then (if a ! (lo + (hi - lo) div 2) < v
            then bisect_left a v (lo + (hi - lo) div 2 + 1) hi
            else bisect_left a v lo (lo + (hi - lo) div 2))
      else lo)"
  by pat_completeness auto
termination
  by (relation "measure (\<lambda>(a, v, lo, hi). hi - lo)") auto

definition searchsorted :: "real list \<Rightarrow> real \<Rightarrow> int" where
  "searchsorted a v = int (bisect_left a v 0 (length a))"

fun get_poly_bounds :: "coord list \<Rightarrow> error + (real \<times> real \<times> real \<times> real)" where
  \<comment> \<open>\<open>poly_points[:,0]\<close> on an array built from an empty ring is one-dimensional:
      IndexError; otherwise \<open>np.min\<close> and \<open>np.max\<close> of the two columns\<close>
  "get_poly_bounds [] = Inl IndexError"
| "get_poly_bounds (p # ps) =
     Inr (fold min (map fst ps) (fst p), fold max (map fst ps) (fst p),
          fold min (map snd ps) (snd p), fold max (map snd ps) (snd p))"

definition get_circle_y_bounds :: "coord \<Rightarrow> real \<Rightarrow> real \<times> real" where
  "get_circle_y_bounds center radius =
     (let deg = radius / 110 in (snd center - deg, snd center + deg))"

definition is_rectangle :: "coord list \<Rightarrow> bool" where
  "is_rectangle poly_points \<longleftrightarrow>
     length poly_points = 5 \<and>
     fst (poly_points ! 0) = fst (poly_points ! 1) \<and>
     fst (poly_points ! 0) = fst (poly_points ! 4) \<and>
     snd (poly_points ! 0) = snd (poly_points ! 3) \<and>
     snd (poly_points ! 1) = snd (poly_points ! 2) \<and>
     fst (poly_points ! 2) = fst (poly_points ! 3)"

definition index_bounds :: "real \<times> real \<times> real \<times> real \<Rightarrow> real list \<Rightarrow> real list
    \<Rightarrow> int \<times> int \<times> int \<times> int" where
  \<comment> \<open>the four lines computing \<open>x_lo, x_hi, y_lo, y_hi\<close>, shared by the rectangle and
      the polygon path\<close>
  "index_bounds b lat long =
     (case b of (xmin, xmax, ymin, ymax) \<Rightarrow>
        (searchsorted long xmin - 1,
         searchsorted long xmax + 1,
         int (length lat) - searchsorted (rev lat) ymax - 1,
         int (length lat) - searchsorted (rev lat) ymin + 1))"

definition np_full :: "nat \<Rightarrow> nat \<Rightarrow> bool \<Rightarrow> mask_array" where
  "np_full rows cols b = replicate rows (replicate cols b)"

subsection \<open>Rectangle\<close>

definition slice_assign :: "mask_array \<Rightarrow> int \<Rightarrow> int \<Rightarrow> int \<Rightarrow> int \<Rightarrow> bool \<Rightarrow> mask_array" where
  \<comment> \<open>\<open>m[y_lo:y_hi, x_lo:x_hi] = b\<close>\<close>
  "slice_assign m y_lo y_hi x_lo x_hi b =
     map (\<lambda>y. map (\<lambda>x. if in_slice (length m) y_lo y_hi y \<and>
                           in_slice (length (m ! y)) x_lo x_hi x
                        then b else m ! y ! x)
                  [0 ..< length (m ! y)])
         [0 ..< length m]"

definition find_selection_rectangle :: "coord list \<Rightarrow> real list \<Rightarrow> real list
    \<Rightarrow> error + mask_array" where
  "find_selection_rectangle coords lat long =
     (case get_poly_bounds coords of Inl e \<Rightarrow> Inl e | Inr b \<Rightarrow>
        (case index_bounds b lat long of (x_lo, x_hi, y_lo, y_hi) \<Rightarrow>
           Inr (slice_assign (np_full (length lat) (length long) True)
                  y_lo y_hi x_lo x_hi False)))"

subsection \<open>Arbitrary polygon\<close>

text \<open>
  \<open>matplotlib.path.Path.contains_point\<close> is a library function; the polygon path takes
  it as the parameter \<open>contains_point\<close>, applied to the vertex list and the point.
\<close>

definition mask_clear :: "mask_array \<Rightarrow> nat \<Rightarrow> nat \<Rightarrow> mask_array" where
  \<comment> \<open>\<open>m[y,x] = False\<close> at normalised indices\<close>
  "mask_clear m y x = m[y := (m ! y)[x := False]]"

fun polygon_row :: "(coord list \<Rightarrow> coord \<Rightarrow> bool) \<Rightarrow> coord list \<Rightarrow> real list \<Rightarrow> real list
    \<Rightarrow> int \<Rightarrow> int list \<Rightarrow> mask_array \<Rightarrow> error + mask_array" where
  "polygon_row contains_point coords lat long y [] m = Inr m"
| "polygon_row contains_point coords lat long y (x # xs) m =
     (case py_index (length long) x of Inl e \<Rightarrow> Inl e | Inr jx \<Rightarrow>
       (case py_index (length lat) y of Inl e \<Rightarrow> Inl e | Inr jy \<Rightarrow>
          polygon_row contains_point coords lat long y xs
            (if contains_point coords (long ! jx, lat ! jy) then mask_clear m jy jx else m)))"

fun polygon_rows :: "(coord list \<Rightarrow> coord \<Rightarrow> bool) \<Rightarrow> coord list \<Rightarrow> real list \<Rightarrow> real list
    \<Rightarrow> int list \<Rightarrow> int list \<Rightarrow> mask_array \<Rightarrow> error + mask_array" where
  "polygon_rows contains_point coords lat long [] xs m = Inr m"
| "polygon_rows contains_point coords lat long (y # ys) xs m =
     (case polygon_row contains_point coords lat long y xs m of Inl e \<Rightarrow> Inl e
      | Inr m' \<Rightarrow> polygon_rows contains_point coords lat long ys xs m')"

definition find_selection_polygon :: "(coord list \<Rightarrow> coord \<Rightarrow> bool) \<Rightarrow> coord list
    \<Rightarrow> real list \<Rightarrow> real list \<Rightarrow> error + mask_array" where
  \<comment> \<open>\<open>Path(coords)\<close> rejects a vertex array that is not of shape (N, 2): ValueError on
      the empty ring\<close>
  "find_selection_polygon contains_point coords lat long =
     (if coords = [] then Inl ValueError
      else case get_poly_bounds coords of Inl e \<Rightarrow> Inl e | Inr b \<Rightarrow>
        (case index_bounds b lat long of (x_lo, x_hi, y_lo, y_hi) \<Rightarrow>
           polygon_rows contains_point coords lat long
             (py_range y_lo y_hi) (py_range x_lo x_hi)
             (np_full (length lat) (length long) True)))"

subsection \<open>Circle\<close>

definition radians :: "real \<Rightarrow> real" where
  "radians x = x * pi / 180"

definition haversine_a :: "coord \<Rightarrow> coord \<Rightarrow> real" where
  \<comment> \<open>the value \<open>a\<close> computed by \<open>distance\<close>\<close>
  "haversine_a origin destination =
     (case origin of (lon1, lat1) \<Rightarrow>
        (case destination of (lon2, lat2) \<Rightarrow>
           (let dlat = radians (lat2 - lat1); dlon = radians (lon2 - lon1)
            in (sin (dlat / 2))\<^sup>2 +
               cos (radians lat1) * cos (radians lat2) * (sin (dlon / 2))\<^sup>2)))"

definition distance :: "coord \<Rightarrow> coord \<Rightarrow> error + real" where
  \<comment> \<open>\<open>c = 2 * asin(sqrt(a), sqrt(1-a))\<close>: both arguments are evaluated (\<open>math.sqrt\<close> of a
      negative number raises ValueError), then \<open>math.asin\<close>, which takes exactly one
      argument, raises TypeError; \<open>d = radius * c\<close> is never reached\<close>
  "distance origin destination =
     (let a = haversine_a origin destination
      in if a < 0 then Inl ValueError
         else if 1 - a < 0 then Inl ValueError
         else Inl TypeError)"

fun circle_row :: "coord \<Rightarrow> real \<Rightarrow> real list \<Rightarrow> real list
    \<Rightarrow> int \<Rightarrow> int list \<Rightarrow> mask_array \<Rightarrow> error + mask_array" where
  "circle_row center radius lat long y [] m = Inr m"
| "circle_row center radius lat long y (x # xs) m =
     (case py_index (length long) x of Inl e \<Rightarrow> Inl e | Inr jx \<Rightarrow>
       (case py_index (length lat) y of Inl e \<Rightarrow> Inl e | Inr jy \<Rightarrow>
          (case distance center (long ! jx, lat ! jy) of Inl e \<Rightarrow> Inl e | Inr d \<Rightarrow>
             circle_row center radius lat long y xs
               (if d < radius then mask_clear m jy jx else m))))"

fun circle_rows :: "coord \<Rightarrow> real \<Rightarrow> real list \<Rightarrow> real list
    \<Rightarrow> int list \<Rightarrow> int list \<Rightarrow> mask_array \<Rightarrow> error + mask_array" where
  "circle_rows center radius lat long [] xs m = Inr m"
| "circle_rows center radius lat long (y # ys) xs m =
     (case circle_row center radius lat long y xs m of Inl e \<Rightarrow> Inl e
      | Inr m' \<Rightarrow> circle_rows center radius lat long ys xs m')"

definition find_selection_circle :: "coord \<Rightarrow> real \<Rightarrow> real list \<Rightarrow> real list
    \<Rightarrow> error + mask_array" where
  "find_selection_circle center radius lat long =
     (case get_circle_y_bounds center radius of (ymin, ymax) \<Rightarrow>
        let y_lo = int (length lat) - searchsorted (rev lat) ymax;
            y_hi = int (length lat) - searchsorted (rev lat) ymin - 1
        in circle_rows center radius lat long
             (py_range y_lo y_hi) (py_range 0 (int (length long)))
             (np_full (length lat) (length long) True))"

subsection \<open>Dispatch\<close>

record selection =
  geometry_type :: string
    \<comment> \<open>\<open>selection['geometry']['type']\<close>\<close>
  point_coordinates :: coord
    \<comment> \<open>\<open>selection['geometry']['coordinates']\<close> of a Point\<close>
  polygon_ring :: "coord list"
    \<comment> \<open>\<open>selection['geometry']['coordinates'][0]\<close> of a Polygon\<close>
  style_radius :: real
    \<comment> \<open>\<open>selection['properties']['style']['radius']\<close>, in metres\<close>

definition find_selection :: "(coord list \<Rightarrow> coord \<Rightarrow> bool) \<Rightarrow> selection
    \<Rightarrow> real list \<Rightarrow> real list \<Rightarrow> error + mask_array option" where
  \<comment> \<open>the result \<open>None\<close> is Python's \<open>None\<close>: the function ends without a \<open>return\<close>\<close>
  "find_selection contains_point sel lat long =
     (if geometry_type sel = ''Point''
      then map_sum id Some
             (find_selection_circle (point_coordinates sel) (style_radius sel / 1000) lat long)
      else if geometry_type sel = ''Polygon''
      then (let coords = polygon_ring sel
            in if is_rectangle coords
               then map_sum id Some (find_selection_rectangle coords lat long)
               else map_sum id Some (find_selection_polygon contains_point coords lat long))
      else Inr None)"

section \<open>layer.py\<close>

subsection \<open>Selections of a layer\<close>

text \<open>
  \<open>np.ma.array(data, mask=mask)\<close> is taken as the constructor of the pair of the data
  slice and the mask it is given.
\<close>

record masked_array =
  ma_data :: "real list list"
  ma_mask :: "mask_array option"

datatype selection_arg = Single selection | Multiple "selection list"
  \<comment> \<open>\<open>Multiple\<close>: the argument is a list, a tuple or an ndarray\<close>

fun mask_and :: "mask_array option \<Rightarrow> mask_array option \<Rightarrow> error + mask_array option" where
  \<comment> \<open>\<open>a & b\<close>: elementwise on two boolean arrays; TypeError when an operand is \<open>None\<close>\<close>
  "mask_and (Some a) (Some b) = Inr (Some (map2 (map2 (\<and>)) a b))"
| "mask_and _ _ = Inl TypeError"

fun combine_masks :: "(coord list \<Rightarrow> coord \<Rightarrow> bool) \<Rightarrow> mask_array option \<Rightarrow> selection list
    \<Rightarrow> real list \<Rightarrow> real list \<Rightarrow> error + mask_array option" where
  \<comment> \<open>the loop \<open>for i in range(1, len(selection))\<close>\<close>
  "combine_masks contains_point m [] lat long = Inr m"
| "combine_masks contains_point m (s # ss) lat long =
     (case find_selection contains_point s lat long of Inl e \<Rightarrow> Inl e | Inr m2 \<Rightarrow>
       (case mask_and m m2 of Inl e \<Rightarrow> Inl e
        | Inr m' \<Rightarrow> combine_masks contains_point m' ss lat long))"

fun selection_mask :: "(coord list \<Rightarrow> coord \<Rightarrow> bool) \<Rightarrow> selection_arg
    \<Rightarrow> real list \<Rightarrow> real list \<Rightarrow> error + mask_array option" where
  \<comment> \<open>the mask computed by both \<open>get_selection\<close> methods; \<open>selection[0]\<close> of an empty
      list raises IndexError\<close>
  "selection_mask contains_point (Single s) lat long = find_selection contains_point s lat long"
| "selection_mask contains_point (Multiple []) lat long = Inl IndexError"
| "selection_mask contains_point (Multiple (s # ss)) lat long =
     (case find_selection contains_point s lat long of Inl e \<Rightarrow> Inl e
      | Inr m \<Rightarrow> combine_masks contains_point m ss lat long)"

subsection \<open>RasterLayer\<close>

text \<open>
  The fields of a \<open>RasterLayer\<close> that the frame cache and the selections use. An
  artifact is the image URL (a string) that \<open>process_frame\<close> returns; the sentinel \<open>0\<close>
  of an absent cache entry is \<open>None\<close>. Bounds, transform and colour map never change
  after construction, so \<open>process_frame('raster', d, bounds_img, transform, cmap)\<close> is
  the parameter \<open>render\<close> applied to the slice \<open>d\<close>.
  \<open>buffer_requests\<close> lists the calls made to the debounced \<open>buffer_frames\<close>, and
  \<open>pool_tasks\<close> the argument tuples \<open>(frame, slice)\<close> handed to \<open>pool.apply_async\<close>
  whose callback has not run yet. \<open>rendered\<close> counts the runs of the raster pipeline
  (\<open>process_frame\<close> in \<open>update_frame\<close>, \<open>calc_frame\<close> in a worker) by listing their
  frame indices.
\<close>

record raster_layer =
  coords_lat :: "real list"
  coords_long :: "real list"
  data :: "real list list list"
  frame :: int
  cache :: "string option list"
  url :: string
  buffer_requests :: "(int \<times> int) list"
  pool_tasks :: "(int \<times> real list list) list"
  rendered :: "int list"

definition get_selection :: "(coord list \<Rightarrow> coord \<Rightarrow> bool) \<Rightarrow> raster_layer \<Rightarrow> selection_arg
    \<Rightarrow> error + masked_array" where
  "get_selection contains_point l sel =
     (case selection_mask contains_point sel (coords_lat l) (coords_long l) of Inl e \<Rightarrow> Inl e
      | Inr m \<Rightarrow>
         (case getitem (data l) (frame l) of Inl e \<Rightarrow> Inl e
          | Inr d \<Rightarrow> Inr \<lparr>ma_data = d, ma_mask = m\<rparr>))"

definition call_buffer_frames :: "int \<Rightarrow> int \<Rightarrow> raster_layer \<Rightarrow> raster_layer" where
  \<comment> \<open>Modelled from the spec: the \<open>debounce\<close> decorator (debounce.py is not among the
      sources). Calls arriving faster than the interval collapse to the last one, which is
      invoked after the interval has elapsed: calling the decorated \<open>buffer_frames\<close> only
      records the request, and the body runs later, as \<open>buffer_frames\<close> below.\<close>
  "call_buffer_frames start n l = l\<lparr>buffer_requests := buffer_requests l @ [(start, n)]\<rparr>"

definition update_frame :: "(real list list \<Rightarrow> string) \<Rightarrow> int option \<Rightarrow> raster_layer
    \<Rightarrow> error + raster_layer" where
  "update_frame render io l =
     (let i = (case io of None \<Rightarrow> frame l + 1 | Some j \<Rightarrow> j);
          l1 = l\<lparr>frame := i\<rparr>;
          l2 = (if i mod 10 = 0 then call_buffer_frames (frame l1 + 1) 40 l1 else l1)
      in case py_index (length (cache l2)) i of Inl e \<Rightarrow> Inl e
         | Inr j \<Rightarrow>
            (case cache l2 ! j of
               Some a \<Rightarrow> Inr (l2\<lparr>url := a\<rparr>)
             | None \<Rightarrow>
                (case getitem (data l2) i of Inl e \<Rightarrow> Inl e
                 | Inr d \<Rightarrow>
                    (let img = render d
                     in Inr (call_buffer_frames (i + 1) 50
                          (l2\<lparr>url := img, cache := (cache l2)[j := Some img],
                              rendered := rendered l2 @ [i]\<rparr>))))))"






subsection \<open>WindLayer\<close>

record wind_layer =
  wind_coords_lat :: "real list"
  wind_coords_long :: "real list"
  wind_u :: "real list list list"
  wind_v :: "real list list list"
  wind_frame :: int

definition wind_get_selection :: "(coord list \<Rightarrow> coord \<Rightarrow> bool) \<Rightarrow> wind_layer \<Rightarrow> selection_arg
    \<Rightarrow> error + (masked_array \<times> masked_array)" where
  \<comment> \<open>\<open>WindLayer.get_selection\<close>: both elements index \<open>self.u\<close>\<close>
  "wind_get_selection contains_point w sel =
     (case selection_mask contains_point sel (wind_coords_lat w) (wind_coords_long w) of
        Inl e \<Rightarrow> Inl e
      | Inr m \<Rightarrow>
         (case getitem (wind_u w) (wind_frame w) of Inl e \<Rightarrow> Inl e
          | Inr d1 \<Rightarrow>
             (case getitem (wind_u w) (wind_frame w) of Inl e \<Rightarrow> Inl e
              | Inr d2 \<Rightarrow> Inr (\<lparr>ma_data = d1, ma_mask = m\<rparr>, \<lparr>ma_data = d2, ma_mask = m\<rparr>))))"

section \<open>processing.py\<close>

subsection \<open>Normalisation of a raster slice\<close>















subsection \<open>Arrows\<close>

definition arctan2 :: "real \<Rightarrow> real \<Rightarrow> real" where
  \<comment> \<open>\<open>np.arctan2(v, u)\<close>, the angle of the vector \<open>(u, v)\<close> in \<open>(-pi, pi]\<close>\<close>
  "arctan2 v u =
     (if 0 < u then arctan (v / u)
      else if u < 0 then (if 0 \<le> v then arctan (v / u) + pi else arctan (v / u) - pi)
      else if 0 < v then pi / 2
      else if v < 0 then - (pi / 2)
      else 0)"

definition calc_arrow :: "real \<Rightarrow> real \<Rightarrow> real \<Rightarrow> real \<Rightarrow> bool \<Rightarrow> real \<Rightarrow> coord list" where
  "calc_arrow u v long lat autoscale scale =
     (let angle = arctan2 v u;
          length = (if autoscale then sqrt \<bar>u * v\<bar> * scale else scale);
          head_scale = 0.1;
          head_angle = 50;
          head_angle_l = radians 270 - radians head_angle;
          head_angle_r = radians 270 + radians head_angle;
          dx = (length / 2) * cos angle;
          dy = (length / 2) * sin angle;
          begin = (long - dx, lat - dy);
          end = (long + dx, lat + dy);
          dx_head_l = (length * head_scale) * cos (angle + head_angle_l);
          dy_head_l = (length * head_scale) * sin (angle + head_angle_l);
          dx_head_r = (length * head_scale) * cos (angle + head_angle_r);
          dy_head_r = (length * head_scale) * sin (angle + head_angle_r);
          head_l = (fst end + dx_head_l, snd end + dy_head_l);
          head_r = (fst end - dx_head_r, snd end - dy_head_r)
      in [begin, end, head_l, end, head_r])"

text \<open>
  The arrow as the specification words it: the two barbs leave the tip at 50 degrees on
  either side of the reverse shaft direction, the angle \<open>\<theta>\<close> plus 180 degrees.
\<close>

definition spec_barb :: "real \<Rightarrow> real \<Rightarrow> real \<Rightarrow> real \<Rightarrow> bool \<Rightarrow> real \<Rightarrow> real \<Rightarrow> coord" where
  \<comment> \<open>the end point of a barb at \<open>deg\<close> degrees from the reverse shaft direction\<close>
  "spec_barb u v long lat autoscale scale deg =
     (let \<theta> = arctan2 v u;
          len = (if autoscale then scale * sqrt \<bar>u * v\<bar> else scale);
          tip = (long + len / 2 * cos \<theta>, lat + len / 2 * sin \<theta>)
      in (fst tip + len / 10 * cos (\<theta> + pi + radians deg),
          snd tip + len / 10 * sin (\<theta> + pi + radians deg)))"

section \<open>Concrete inputs\<close>

text \<open>
  An even-odd ray-casting test stands for \<open>contains_point\<close> wherever a polygon is
  evaluated on concrete points: it counts the edges that a ray from the point towards
  larger longitudes crosses.
\<close>

fun crossings :: "coord list \<Rightarrow> coord \<Rightarrow> nat" where
  "crossings (p # q # ps) pt =
     (if (snd pt < snd p) \<noteq> (snd pt < snd q) \<and>
         fst pt < fst p + (snd pt - snd p) * (fst q - fst p) / (snd q - snd p)
      then 1 else 0) + crossings (q # ps) pt"
| "crossings ps pt = 0"

definition ray_casting :: "coord list \<Rightarrow> coord \<Rightarrow> bool" where
  "ray_casting vs pt = odd (crossings vs pt)"



definition line_string_selection :: selection where
  "line_string_selection =
     \<lparr>geometry_type = ''LineString'', point_coordinates = (0, 0),
      polygon_ring = [(0, 0), (1, 1)], style_radius = 0\<rparr>"

definition multi_polygon_selection :: selection where
  "multi_polygon_selection =
     \<lparr>geometry_type = ''MultiPolygon'', point_coordinates = (0, 0),
      polygon_ring = [], style_radius = 0\<rparr>"

definition unit_grid_lat :: "real list" where
  "unit_grid_lat = [4, 3, 2, 1, 0]"

definition unit_grid_long :: "real list" where
  "unit_grid_long = [0, 1, 2, 3, 4]"

definition inner_rectangle :: "coord list" where
  \<comment> \<open>the square from 1.5 to 2.5 in both coordinates, as a closed ring of 5 vertices\<close>
  "inner_rectangle = [(1.5, 1.5), (1.5, 2.5), (2.5, 2.5), (2.5, 1.5), (1.5, 1.5)]"

definition right_rectangle :: "coord list" where
  "right_rectangle = [(3.5, 1.5), (3.5, 2.5), (3.6, 2.5), (3.6, 1.5), (3.5, 1.5)]"

definition polygon_selection :: "coord list \<Rightarrow> selection" where
  "polygon_selection ring =
     \<lparr>geometry_type = ''Polygon'', point_coordinates = (0, 0),
      polygon_ring = ring, style_radius = 0\<rparr>"

definition zero_slice :: "real list list" where
  "zero_slice = replicate 5 (replicate 5 0)"

definition one_slice :: "real list list" where
  "one_slice = replicate 5 (replicate 5 1)"

definition unit_layer :: raster_layer where
  "unit_layer =
     \<lparr>coords_lat = unit_grid_lat, coords_long = unit_grid_long, data = [zero_slice],
      frame = 0, cache = [None], url = [], buffer_requests = [], pool_tasks = [],
      rendered = []\<rparr>"

definition unit_wind_layer :: wind_layer where
  "unit_wind_layer =
     \<lparr>wind_coords_lat = unit_grid_lat, wind_coords_long = unit_grid_long,
      wind_u = [zero_slice], wind_v = [one_slice], wind_frame = 0\<rparr>"

definition inner_rectangle_mask :: mask_array where
  "inner_rectangle_mask =
     [[True, True, True, True, True],
      [True, False, False, False, True],
      [True, False, False, False, True],
      [True, False, False, False, True],
      [True, True, True, True, True]]"

definition right_rectangle_mask :: mask_array where
  "right_rectangle_mask =
     [[True, True, True, True, True],
      [True, True, True, False, False],
      [True, True, True, False, False],
      [True, True, True, False, False],
      [True, True, True, True, True]]"

definition both_rectangles_mask :: mask_array where
  "both_rectangles_mask =
     [[True, True, True, True, True],
      [True, False, False, False, False],
      [True, False, False, False, False],
      [True, False, False, False, False],
      [True, True, True, True, True]]"

definition degree_circle :: selection where
  "degree_circle =
     \<lparr>geometry_type = ''Point'', point_coordinates = (0, 0),
      polygon_ring = [], style_radius = 111000\<rparr>"


definition twelve_frame_layer :: raster_layer where
  "twelve_frame_layer =
     \<lparr>coords_lat = unit_grid_lat, coords_long = unit_grid_long,
      data = replicate 12 zero_slice,
      frame = 0, cache = Some ''frame 0'' # replicate 11 None, url = ''frame 0'',
      buffer_requests = [], pool_tasks = [], rendered = []\<rparr>"

definition cached_layer :: raster_layer where
  "cached_layer =
     \<lparr>coords_lat = unit_grid_lat, coords_long = unit_grid_long, data = [zero_slice, one_slice],
      frame = 0, cache = [Some ''frame 0'', Some ''frame 1''], url = ''frame 0'',
      buffer_requests = [], pool_tasks = [], rendered = []\<rparr>"

definition name_slice :: "real list list \<Rightarrow> string" where
  \<comment> \<open>a renderer for the concrete layers: it tells the slice of zeros from any other\<close>
  "name_slice d = (if d = zero_slice then ''zeros'' else ''other'')"

section \<open>Dispatch on the geometry type\<close>

text \<open>
  Claim C9 says that a selection whose geometry type is neither \<open>'Point'\<close> nor
  \<open>'Polygon'\<close> is reported as an error and never yields "no mask". \<open>find_selection\<close> has
  no \<open>else\<close> branch and no \<open>raise\<close>: for a line string on a 2 x 2 grid it ends without
  an error and returns \<open>None\<close>.
\<close>

theorem find_selection_line_string_returns_none:
  "find_selection ray_casting line_string_selection [1, 0] [0, 1] = Inr None"
  by (simp add: find_selection_def line_string_selection_def)

text \<open>
  Claim C9 as amended: for every selection whose geometry type is neither \<open>'Point'\<close> nor
  \<open>'Polygon'\<close>, \<open>find_selection\<close> raises nothing and returns \<open>None\<close>, that is, no mask.
\<close>

theorem find_selection_other_type_returns_none:
  "geometry_type sel \<noteq> ''Point'' \<Longrightarrow> geometry_type sel \<noteq> ''Polygon'' \<Longrightarrow>
   find_selection contains_point sel lat long = Inr None"
  by (simp add: find_selection_def)

theorem find_selection_other_type_returns_none_witness:
  "geometry_type multi_polygon_selection \<noteq> ''Point'' \<and>
   geometry_type multi_polygon_selection \<noteq> ''Polygon'' \<and>
   find_selection ray_casting multi_polygon_selection [2, 1, 0] [0, 1] = Inr None"
proof -
  have p: "geometry_type multi_polygon_selection \<noteq> ''Point''"
    by (simp add: multi_polygon_selection_def)
  have q: "geometry_type multi_polygon_selection \<noteq> ''Polygon''"
    by (simp add: multi_polygon_selection_def)
  from find_selection_other_type_returns_none [OF p q] p q show ?thesis by simp
qed

section \<open>Rectangle fast path and polygon path\<close>

subsection \<open>Index ranges and masks\<close>

lemma bisect_left_bounds:
  "lo \<le> hi \<Longrightarrow> lo \<le> bisect_left a v lo hi \<and> bisect_left a v lo hi \<le> hi"
proof (induction a v lo hi rule: bisect_left.induct)
  case (1 a v lo hi)
  show ?case
  proof (cases "lo < hi")
    case False
    with "1.prems" show ?thesis by (simp add: bisect_left.simps [of a v lo hi])
  next
    case True
    let ?mid = "lo + (hi - lo) div 2"
    from True have mid: "lo \<le> ?mid" "?mid < hi" by auto
    show ?thesis
    proof (cases "a ! ?mid < v")
      case True
      with "1.IH"(1) [OF \<open>lo < hi\<close> True] mid \<open>lo < hi\<close>
      show ?thesis by (subst (1 2) bisect_left.simps) auto
    next
      case False
      with "1.IH"(2) [OF \<open>lo < hi\<close> False] mid \<open>lo < hi\<close>
      show ?thesis by (subst (1 2) bisect_left.simps) auto
    qed
  qed
qed

lemma searchsorted_bounds: "0 \<le> searchsorted a v \<and> searchsorted a v \<le> int (length a)"
  using bisect_left_bounds [of 0 "length a" a v] by (simp add: searchsorted_def)

lemma mask_clear_length [simp]: "length (mask_clear m y x) = length m"
  by (simp add: mask_clear_def)

lemma mask_clear_rows:
  assumes "\<forall>r\<in>set m. length r = c"
  shows "\<forall>r\<in>set (mask_clear m y x). length r = c"
proof (cases "y < length m")
  case True
  show ?thesis
  proof
    fix r assume "r \<in> set (mask_clear m y x)"
    then have "r \<in> insert ((m ! y)[x := False]) (set m)"
      unfolding mask_clear_def using set_update_subset_insert by fastforce
    with assms True show "length r = c" by auto
  qed
next
  case False
  with assms show ?thesis by (simp add: mask_clear_def list_update_beyond)
qed

lemma mask_clear_nth:
  assumes "j < length m" "i < length (m ! j)"
  shows "mask_clear m y x ! j ! i = (m ! j ! i \<and> \<not> (j = y \<and> i = x))"
proof (cases "j = y")
  case True
  with assms show ?thesis by (cases "i = x") (simp_all add: mask_clear_def)
next
  case False
  with assms show ?thesis by (simp add: mask_clear_def)
qed

lemma py_index_in_range:
  "0 \<le> i \<Longrightarrow> i < int n \<Longrightarrow> py_index n i = Inr (nat i)"
  by (simp add: py_index_def)

lemma polygon_row_result:
  assumes "\<forall>x\<in>set xs. 0 \<le> x \<and> x < int (length long)"
    and "0 \<le> y" and "y < int (length lat)"
    and "length m = length lat" and "\<forall>r\<in>set m. length r = length long"
  shows "\<exists>m'. polygon_row cp coords lat long y xs m = Inr m' \<and>
           length m' = length lat \<and> (\<forall>r\<in>set m'. length r = length long) \<and>
           (\<forall>j<length lat. \<forall>i<length long.
              m' ! j ! i = (m ! j ! i \<and>
                \<not> (int j = y \<and> int i \<in> set xs \<and> cp coords (long ! i, lat ! j))))"
  using assms
proof (induction xs arbitrary: m)
  case Nil
  then show ?case by simp
next
  case (Cons x xs)
  let ?m1 = "if cp coords (long ! nat x, lat ! nat y) then mask_clear m (nat y) (nat x) else m"
  from Cons.prems have x: "0 \<le> x" "x < int (length long)" by auto
  have len1: "length ?m1 = length lat" using Cons.prems by simp
  have rows1: "\<forall>r\<in>set ?m1. length r = length long"
    using Cons.prems(5) mask_clear_rows [of m "length long"] by simp
  from Cons.prems have xs: "\<forall>x\<in>set xs. 0 \<le> x \<and> x < int (length long)" by simp
  from Cons.IH [OF xs Cons.prems(2,3) len1 rows1]
  obtain m' where m': "polygon_row cp coords lat long y xs ?m1 = Inr m'"
      "length m' = length lat" "\<forall>r\<in>set m'. length r = length long"
      "\<forall>j<length lat. \<forall>i<length long.
              m' ! j ! i = (?m1 ! j ! i \<and>
                \<not> (int j = y \<and> int i \<in> set xs \<and> cp coords (long ! i, lat ! j)))"
    by blast
  have step: "polygon_row cp coords lat long y (x # xs) m = Inr m'"
    using m'(1) x Cons.prems(2,3) by (simp add: py_index_in_range)
  have nth1: "?m1 ! j ! i = (m ! j ! i \<and>
        \<not> (int j = y \<and> int i = x \<and> cp coords (long ! i, lat ! j)))"
    if "j < length lat" "i < length long" for j i
  proof -
    from that Cons.prems(4,5) have "j < length m" "i < length (m ! j)" by auto
    then show ?thesis using x Cons.prems(2) by (auto simp: mask_clear_nth)
  qed
  have "\<forall>j<length lat. \<forall>i<length long.
              m' ! j ! i = (m ! j ! i \<and>
                \<not> (int j = y \<and> int i \<in> set (x # xs) \<and> cp coords (long ! i, lat ! j)))"
    using m'(4) nth1 by auto
  with step m'(2,3) show ?case by blast
qed

lemma polygon_rows_result:
  assumes "\<forall>x\<in>set xs. 0 \<le> x \<and> x < int (length long)"
    and "\<forall>y\<in>set ys. 0 \<le> y \<and> y < int (length lat)"
    and "length m = length lat" and "\<forall>r\<in>set m. length r = length long"
  shows "\<exists>m'. polygon_rows cp coords lat long ys xs m = Inr m' \<and>
           length m' = length lat \<and> (\<forall>r\<in>set m'. length r = length long) \<and>
           (\<forall>j<length lat. \<forall>i<length long.
              m' ! j ! i = (m ! j ! i \<and>
                \<not> (int j \<in> set ys \<and> int i \<in> set xs \<and> cp coords (long ! i, lat ! j))))"
  using assms
proof (induction ys arbitrary: m)
  case Nil
  then show ?case by simp
next
  case (Cons y ys)
  from Cons.prems have y: "0 \<le> y" "y < int (length lat)" by auto
  from polygon_row_result [OF Cons.prems(1) y Cons.prems(3,4), of cp coords]
  obtain m1 where m1: "polygon_row cp coords lat long y xs m = Inr m1"
      "length m1 = length lat" "\<forall>r\<in>set m1. length r = length long"
      "\<forall>j<length lat. \<forall>i<length long.
              m1 ! j ! i = (m ! j ! i \<and>
                \<not> (int j = y \<and> int i \<in> set xs \<and> cp coords (long ! i, lat ! j)))"
    by blast
  from Cons.prems have ys: "\<forall>y\<in>set ys. 0 \<le> y \<and> y < int (length lat)" by simp
  from Cons.IH [OF Cons.prems(1) ys m1(2,3)]
  obtain m' where m': "polygon_rows cp coords lat long ys xs m1 = Inr m'"
      "length m' = length lat" "\<forall>r\<in>set m'. length r = length long"
      "\<forall>j<length lat. \<forall>i<length long.
              m' ! j ! i = (m1 ! j ! i \<and>
                \<not> (int j \<in> set ys \<and> int i \<in> set xs \<and> cp coords (long ! i, lat ! j)))"
    by blast
  have step: "polygon_rows cp coords lat long (y # ys) xs m = Inr m'"
    using m1(1) m'(1) by simp
  have "\<forall>j<length lat. \<forall>i<length long.
              m' ! j ! i = (m ! j ! i \<and>
                \<not> (int j \<in> set (y # ys) \<and> int i \<in> set xs \<and> cp coords (long ! i, lat ! j)))"
    using m'(4) m1(4) by auto
  with step m'(2,3) show ?case by blast
qed

lemma in_slice_in_range:
  "0 \<le> lo \<Longrightarrow> 0 \<le> hi \<Longrightarrow> hi \<le> int n \<Longrightarrow> in_slice n lo hi j \<longleftrightarrow> lo \<le> int j \<and> int j < hi"
  by (auto simp: in_slice_def slice_bound_def)

lemma slice_assign_np_full_nth:
  "j < rows \<Longrightarrow> i < cols \<Longrightarrow>
   slice_assign (np_full rows cols True) y_lo y_hi x_lo x_hi False ! j ! i =
     (\<not> (in_slice rows y_lo y_hi j \<and> in_slice cols x_lo x_hi i))"
  by (simp add: slice_assign_def np_full_def)

lemma slice_assign_np_full_shape:
  "length (slice_assign (np_full rows cols b) y_lo y_hi x_lo x_hi c) = rows \<and>
   (\<forall>r\<in>set (slice_assign (np_full rows cols b) y_lo y_hi x_lo x_hi c). length r = cols)"
  by (auto simp: slice_assign_def np_full_def)

lemma np_full_shape:
  "length (np_full rows cols b) = rows \<and> (\<forall>r\<in>set (np_full rows cols b). length r = cols)"
  by (auto simp: np_full_def)

lemma np_full_nth: "j < rows \<Longrightarrow> i < cols \<Longrightarrow> np_full rows cols b ! j ! i = b"
  by (simp add: np_full_def)

subsection \<open>The two paths on the same rectangle\<close>

text \<open>
  Claim C3 says that the rectangle fast path and the polygon path give identical masks
  for the same rectangle; the docstrings of both functions promise a mask of the points
  that the shape does not enclose. The square from 1.5 to 2.5 on the grid of integer
  coordinates 0..4 encloses one sample point, (2, 2). Both paths widen the index range by
  one index on each side. The polygon path tests every cell of that range and unmasks
  only the enclosed one; the fast path assigns the whole range and unmasks the 3 x 3
  block of rows and columns 1..3, eight sample points of which lie outside the
  rectangle.
\<close>

theorem rectangle_and_polygon_masks_differ:
  "is_rectangle inner_rectangle \<and>
   find_selection_rectangle inner_rectangle unit_grid_lat unit_grid_long =
     Inr [[True, True, True, True, True],
          [True, False, False, False, True],
          [True, False, False, False, True],
          [True, False, False, False, True],
          [True, True, True, True, True]] \<and>
   find_selection_polygon ray_casting inner_rectangle unit_grid_lat unit_grid_long =
     Inr [[True, True, True, True, True],
          [True, True, True, True, True],
          [True, True, False, True, True],
          [True, True, True, True, True],
          [True, True, True, True, True]]"
  by code_simp

text \<open>
  How the two paths relate in general: when the widened index range of the rectangle
  lies inside the grid (\<open>0 \<le> x_lo\<close>, \<open>x_hi \<le> len(long)\<close>, \<open>0 \<le> y_lo\<close>, \<open>y_hi \<le> len(lat)\<close>),
  both paths return a mask of the shape of the grid, and a cell is masked by the polygon
  path if and only if it is masked by the fast path or the point-in-polygon test
  rejects its sample point. So the fast path unmasks every cell the polygon path
  unmasks, and in addition the cells of the widened range that the test rejects. This
  holds for every point-in-polygon test.
\<close>

theorem rectangle_mask_covers_polygon_mask:
  assumes b: "get_poly_bounds coords = Inr b"
    and ib: "index_bounds b lat long = (x_lo, x_hi, y_lo, y_hi)"
    and x: "0 \<le> x_lo" "x_hi \<le> int (length long)"
    and y: "0 \<le> y_lo" "y_hi \<le> int (length lat)"
  shows "\<exists>mp mr. find_selection_polygon contains_point coords lat long = Inr mp \<and>
           find_selection_rectangle coords lat long = Inr mr \<and>
           length mp = length lat \<and> length mr = length lat \<and>
           (\<forall>j<length lat. length (mp ! j) = length long \<and> length (mr ! j) = length long \<and>
              (\<forall>i<length long.
                 mp ! j ! i = (mr ! j ! i \<or> \<not> contains_point coords (long ! i, lat ! j))))"
proof -
  let ?full = "np_full (length lat) (length long) True"
  let ?mr = "slice_assign ?full y_lo y_hi x_lo x_hi False"
  from b have ne: "coords \<noteq> []" by (cases coords) auto
  have hi: "0 \<le> x_hi" "0 \<le> y_hi"
    using ib searchsorted_bounds [of long "fst (snd b)"]
      searchsorted_bounds [of "rev lat" "fst (snd (snd b))"]
    by (auto simp: index_bounds_def split: prod.splits)
  have xs: "\<forall>x\<in>set (py_range x_lo x_hi). 0 \<le> x \<and> x < int (length long)"
    using x by (auto simp: py_range_def)
  have ys: "\<forall>y\<in>set (py_range y_lo y_hi). 0 \<le> y \<and> y < int (length lat)"
    using y by (auto simp: py_range_def)
  from polygon_rows_result [OF xs ys, of ?full contains_point coords] np_full_shape
  obtain mp where mp: "polygon_rows contains_point coords lat long
        (py_range y_lo y_hi) (py_range x_lo x_hi) ?full = Inr mp"
      "length mp = length lat" "\<forall>r\<in>set mp. length r = length long"
      "\<forall>j<length lat. \<forall>i<length long.
          mp ! j ! i = (?full ! j ! i \<and>
            \<not> (int j \<in> set (py_range y_lo y_hi) \<and> int i \<in> set (py_range x_lo x_hi) \<and>
               contains_point coords (long ! i, lat ! j)))"
    by blast
  have P: "find_selection_polygon contains_point coords lat long = Inr mp"
    using ne b ib mp(1) by (simp add: find_selection_polygon_def)
  have R: "find_selection_rectangle coords lat long = Inr ?mr"
    using b ib by (simp add: find_selection_rectangle_def)
  have cells: "mp ! j ! i = (?mr ! j ! i \<or> \<not> contains_point coords (long ! i, lat ! j))"
    if "j < length lat" "i < length long" for j i
    using that mp(4) x y hi
    by (auto simp: slice_assign_np_full_nth in_slice_in_range np_full_nth py_range_def)
  have rows: "length (mp ! j) = length long \<and> length (?mr ! j) = length long"
    if "j < length lat" for j
    using that mp(2,3) slice_assign_np_full_shape [of "length lat" "length long" True y_lo y_hi x_lo x_hi False]
    by (metis nth_mem)
  from P R mp(2) cells rows slice_assign_np_full_shape [of "length lat" "length long" True y_lo y_hi x_lo x_hi False]
  show ?thesis by blast
qed

theorem rectangle_mask_covers_polygon_mask_witness:
  "get_poly_bounds inner_rectangle = Inr (1.5, 2.5, 1.5, 2.5) \<and>
   index_bounds (1.5, 2.5, 1.5, 2.5) unit_grid_lat unit_grid_long = (1, 4, 1, 4) \<and>
   (\<exists>mp mr. find_selection_polygon ray_casting inner_rectangle unit_grid_lat unit_grid_long = Inr mp \<and>
      find_selection_rectangle inner_rectangle unit_grid_lat unit_grid_long = Inr mr \<and>
      mp ! 2 ! 2 = (mr ! 2 ! 2 \<or> \<not> ray_casting inner_rectangle (unit_grid_long ! 2, unit_grid_lat ! 2)) \<and>
      mp ! 1 ! 1 = (mr ! 1 ! 1 \<or> \<not> ray_casting inner_rectangle (unit_grid_long ! 1, unit_grid_lat ! 1)))"
proof -
  have b: "get_poly_bounds inner_rectangle = Inr (1.5, 2.5, 1.5, 2.5)"
    by (simp add: inner_rectangle_def)
  have ib: "index_bounds (1.5, 2.5, 1.5, 2.5) unit_grid_lat unit_grid_long = (1, 4, 1, 4)"
    by code_simp
  have len: "length unit_grid_lat = 5" "length unit_grid_long = 5"
    by (simp_all add: unit_grid_lat_def unit_grid_long_def)
  from rectangle_mask_covers_polygon_mask [OF b ib, of ray_casting]
  obtain mp mr where
    "find_selection_polygon ray_casting inner_rectangle unit_grid_lat unit_grid_long = Inr mp"
    "find_selection_rectangle inner_rectangle unit_grid_lat unit_grid_long = Inr mr"
    "\<forall>j<length unit_grid_lat. length (mp ! j) = length unit_grid_long \<and>
        length (mr ! j) = length unit_grid_long \<and>
        (\<forall>i<length unit_grid_long. mp ! j ! i =
           (mr ! j ! i \<or> \<not> ray_casting inner_rectangle (unit_grid_long ! i, unit_grid_lat ! j)))"
    by (auto simp: len)
  then show ?thesis using b ib len by auto
qed

section \<open>Circle selection\<close>

text \<open>
  \<open>distance\<close> never returns: whatever the two points, the call of \<open>asin\<close> with two
  arguments raises. So the circle path returns a mask only when its loop body is never
  entered, and that mask includes no cell.
\<close>

lemma distance_not_Inr: "distance a b \<noteq> Inr d"
  by (simp add: distance_def Let_def)

lemma circle_row_Inr: "circle_row c r lat long y xs m = Inr m' \<Longrightarrow> xs = [] \<and> m' = m"
  by (cases xs) (auto simp: distance_not_Inr split: sum.splits)

lemma circle_rows_Inr: "circle_rows c r lat long ys xs m = Inr m' \<Longrightarrow> m' = m"
  by (induction ys arbitrary: m) (auto split: sum.splits dest: circle_row_Inr)

lemma find_selection_circle_includes_nothing:
  "find_selection_circle center radius lat long = Inr m \<Longrightarrow>
   m = np_full (length lat) (length long) True"
  by (auto simp: find_selection_circle_def Let_def split: prod.splits dest: circle_rows_Inr)

lemma haversine_a_same_long:
  "haversine_a (x, y1) (x, y2) = (sin (radians (y2 - y1) / 2))\<^sup>2"
  by (simp add: haversine_a_def radians_def)

lemma distance_same_long: "distance (x, y1) (x, y2) = Inl TypeError"
proof -
  have "(sin (radians (y2 - y1) / 2))\<^sup>2 \<le> 1"
    using sin_cos_squared_add [of "radians (y2 - y1) / 2"]
      zero_le_power2 [of "cos (radians (y2 - y1) / 2)"] by linarith
  then show ?thesis
    by (simp add: distance_def haversine_a_same_long)
qed

text \<open>
  Claim C2 says that a sample point of the searched latitude band is included if and
  only if its haversine distance from the centre is below the radius, and that for a
  centre (0, 0) and a radius of 111 km a sample 0.5 degrees away is included. On the
  code, for that circle and the latitudes 1.5, 0.5, 0, -0.5, -1.5 at longitude 0, the
  band is the rows of 0.5 and 0, and the first distance computed there raises
  TypeError: no mask is returned.
\<close>

theorem find_selection_circle_raises_type_error:
  "find_selection ray_casting degree_circle [3/2, 1/2, 0, -1/2, -3/2] [0] = Inl TypeError"
proof -
  have s1: "searchsorted (rev [3/2, 1/2, 0, -1/2, -3/2]) (111 / 110) = 4"
    by code_simp
  have s2: "searchsorted (rev [3/2, 1/2, 0, -1/2, -3/2]) (- (111 / 110)) = 1"
    by code_simp
  have "find_selection_circle (0, 0) (111000 / 1000) [3/2, 1/2, 0, -1/2, -3/2] [0] =
      Inl TypeError"
    unfolding find_selection_circle_def get_circle_y_bounds_def
    using s1 s2
    by (simp add: Let_def py_range_def upto.simps py_index_def distance_same_long)
  then show ?thesis by (simp add: find_selection_def degree_circle_def)
qed

section \<open>Combining the shapes of one query\<close>

subsection \<open>Every mask has the shape of the grid\<close>

lemma polygon_row_shape:
  "polygon_row cp coords lat long y xs m = Inr m' \<Longrightarrow>
   length m = r \<Longrightarrow> \<forall>row\<in>set m. length row = c \<Longrightarrow>
   length m' = r \<and> (\<forall>row\<in>set m'. length row = c)"
proof (induction xs arbitrary: m)
  case Nil
  then show ?case by simp
next
  case (Cons x xs)
  from Cons.prems(1) obtain jx jy where
    step: "polygon_row cp coords lat long y xs
        (if cp coords (long ! jx, lat ! jy) then mask_clear m jy jx else m) = Inr m'"
    by (auto split: sum.splits)
  let ?m1 = "if cp coords (long ! jx, lat ! jy) then mask_clear m jy jx else m"
  have "length ?m1 = r" using Cons.prems(2) by simp
  moreover have "\<forall>row\<in>set ?m1. length row = c"
    using Cons.prems(3) mask_clear_rows [of m c jy jx] by simp
  ultimately show ?case using Cons.IH [OF step] by blast
qed

lemma polygon_rows_shape:
  "polygon_rows cp coords lat long ys xs m = Inr m' \<Longrightarrow>
   length m = r \<Longrightarrow> \<forall>row\<in>set m. length row = c \<Longrightarrow>
   length m' = r \<and> (\<forall>row\<in>set m'. length row = c)"
proof (induction ys arbitrary: m)
  case Nil
  then show ?case by simp
next
  case (Cons y ys)
  from Cons.prems(1) obtain m1 where
    m1: "polygon_row cp coords lat long y xs m = Inr m1"
    and rest: "polygon_rows cp coords lat long ys xs m1 = Inr m'"
    by (auto split: sum.splits)
  from polygon_row_shape [OF m1 Cons.prems(2,3)] Cons.IH [OF rest]
  show ?case by blast
qed

lemma find_selection_shape:
  assumes "find_selection cp s lat long = Inr (Some m)"
  shows "length m = length lat \<and> (\<forall>row\<in>set m. length row = length long)"
proof -
  consider
    (circle) r where "find_selection_circle (point_coordinates s) r lat long = Inr m"
  | (rect) "find_selection_rectangle (polygon_ring s) lat long = Inr m"
  | (poly) "find_selection_polygon cp (polygon_ring s) lat long = Inr m"
    using assms
    by (auto simp: find_selection_def Let_def map_sum_def split: if_splits sum.splits)
  then show ?thesis
  proof cases
    case circle
    from find_selection_circle_includes_nothing [OF this] np_full_shape
    show ?thesis by blast
  next
    case rect
    then show ?thesis
      using slice_assign_np_full_shape
      by (auto simp: find_selection_rectangle_def split: sum.splits prod.splits)
  next
    case poly
    then obtain ys xs where
      "polygon_rows cp (polygon_ring s) lat long ys xs
         (np_full (length lat) (length long) True) = Inr m"
      by (auto simp: find_selection_polygon_def split: if_splits sum.splits prod.splits)
    from polygon_rows_shape [OF this] np_full_shape show ?thesis by blast
  qed
qed

lemma mask_and_Inr:
  "mask_and a b = Inr c \<Longrightarrow>
   \<exists>ma mb. a = Some ma \<and> b = Some mb \<and> c = Some (map2 (map2 (\<and>)) ma mb)"
  by (cases a; cases b) auto

lemma map2_and_shape:
  assumes "length a = r" "\<forall>row\<in>set a. length row = c"
    and "length b = r" "\<forall>row\<in>set b. length row = c"
  shows "length (map2 (map2 (\<and>)) a b) = r"
    and "\<forall>row\<in>set (map2 (map2 (\<and>)) a b). length row = c"
    and "j < r \<Longrightarrow> i < c \<Longrightarrow> map2 (map2 (\<and>)) a b ! j ! i = (a ! j ! i \<and> b ! j ! i)"
proof -
  show "length (map2 (map2 (\<and>)) a b) = r" using assms by simp
  show "\<forall>row\<in>set (map2 (map2 (\<and>)) a b). length row = c"
  proof
    fix row assume "row \<in> set (map2 (map2 (\<and>)) a b)"
    then obtain x y where "(x, y) \<in> set (zip a b)" "row = map2 (\<and>) x y" by auto
    then have "x \<in> set a" "y \<in> set b" "row = map2 (\<and>) x y"
      by (auto dest: set_zip_leftD set_zip_rightD)
    with assms show "length row = c" by simp
  qed
  show "map2 (map2 (\<and>)) a b ! j ! i = (a ! j ! i \<and> b ! j ! i)" if "j < r" "i < c"
  proof -
    from that assms have "length (a ! j) = c" "length (b ! j) = c" by auto
    with that assms show ?thesis by simp
  qed
qed

lemma combine_masks_result:
  assumes "combine_masks cp (Some m0) ss lat long = Inr res"
    and "length m0 = length lat" and "\<forall>row\<in>set m0. length row = length long"
  shows "\<exists>mc. res = Some mc \<and> length mc = length lat \<and>
           (\<forall>row\<in>set mc. length row = length long) \<and>
           (\<forall>s\<in>set ss. \<exists>m. find_selection cp s lat long = Inr (Some m)) \<and>
           (\<forall>j<length lat. \<forall>i<length long.
              mc ! j ! i = (m0 ! j ! i \<and>
                (\<forall>s\<in>set ss. \<exists>m. find_selection cp s lat long = Inr (Some m) \<and> m ! j ! i)))"
  using assms
proof (induction ss arbitrary: m0)
  case Nil
  then show ?case by auto
next
  case (Cons s ss)
  from Cons.prems(1) obtain m2 m' where
    fs: "find_selection cp s lat long = Inr m2"
    and ma: "mask_and (Some m0) m2 = Inr m'"
    and rest: "combine_masks cp m' ss lat long = Inr res"
    by (auto split: sum.splits)
  from mask_and_Inr [OF ma] obtain mb where
    mb: "m2 = Some mb" "m' = Some (map2 (map2 (\<and>)) m0 mb)" by auto
  let ?m1 = "map2 (map2 (\<and>)) m0 mb"
  from fs mb have fsb: "find_selection cp s lat long = Inr (Some mb)" by simp
  note shb = find_selection_shape [OF fsb]
  note m1 = map2_and_shape [OF Cons.prems(2,3) conjunct1 [OF shb] conjunct2 [OF shb]]
  from rest mb have rest': "combine_masks cp (Some ?m1) ss lat long = Inr res" by simp
  from Cons.IH [OF rest' m1(1) m1(2)]
  obtain mc where mc: "res = Some mc" "length mc = length lat"
      "\<forall>row\<in>set mc. length row = length long"
      "\<forall>s\<in>set ss. \<exists>m. find_selection cp s lat long = Inr (Some m)"
      "\<forall>j<length lat. \<forall>i<length long.
              mc ! j ! i = (?m1 ! j ! i \<and>
                (\<forall>s\<in>set ss. \<exists>m. find_selection cp s lat long = Inr (Some m) \<and> m ! j ! i))"
    by blast
  have all: "\<forall>s\<in>set (s # ss). \<exists>m. find_selection cp s lat long = Inr (Some m)"
    using fsb mc(4) by simp
  have cells: "mc ! j ! i = (m0 ! j ! i \<and>
      (\<forall>s\<in>set (s # ss). \<exists>m. find_selection cp s lat long = Inr (Some m) \<and> m ! j ! i))"
    if "j < length lat" "i < length long" for j i
    using mc(5) that m1(3) [OF that] fsb by auto
  from mc(1,2,3) all cells show ?case by blast
qed

subsection \<open>Two rectangles on the unit grid\<close>

lemma find_selection_inner_rectangle:
  "find_selection cp (polygon_selection inner_rectangle) unit_grid_lat unit_grid_long =
     Inr (Some inner_rectangle_mask)"
proof -
  have "is_rectangle inner_rectangle" by code_simp
  moreover have "find_selection_rectangle inner_rectangle unit_grid_lat unit_grid_long =
      Inr inner_rectangle_mask" by code_simp
  ultimately show ?thesis by (simp add: find_selection_def polygon_selection_def)
qed

lemma find_selection_right_rectangle:
  "find_selection cp (polygon_selection right_rectangle) unit_grid_lat unit_grid_long =
     Inr (Some right_rectangle_mask)"
proof -
  have "is_rectangle right_rectangle" by code_simp
  moreover have "find_selection_rectangle right_rectangle unit_grid_lat unit_grid_long =
      Inr right_rectangle_mask" by code_simp
  ultimately show ?thesis by (simp add: find_selection_def polygon_selection_def)
qed

lemma and_of_rectangle_masks:
  "map2 (map2 (\<and>)) inner_rectangle_mask right_rectangle_mask = both_rectangles_mask"
  by code_simp

lemma get_selection_both_rectangles:
  "get_selection cp unit_layer
       (Multiple [polygon_selection inner_rectangle, polygon_selection right_rectangle]) =
     Inr \<lparr>ma_data = zero_slice, ma_mask = Some both_rectangles_mask\<rparr>"
  by (simp add: get_selection_def unit_layer_def find_selection_inner_rectangle
      find_selection_right_rectangle and_of_rectangle_masks getitem_def py_index_def)

subsection \<open>The combined mask\<close>

text \<open>
  Claim C1 says that the mask of a query with several shapes is the logical OR of the
  shapes' exclusion masks, so that a cell excluded by some shape is excluded in the
  combined mask. \<open>get_selection\<close> combines the masks with \<open>&\<close>. On the unit grid, the cell
  in row 2 and column 2, whose sample point (2, 2) lies inside the inner rectangle, is
  excluded by the right rectangle (its mask is \<open>True\<close> there), and the mask of the query
  with the inner and the right rectangle is \<open>False\<close> there: the cell is included.
\<close>

theorem combined_mask_includes_cell_excluded_by_one_shape:
  "find_selection ray_casting (polygon_selection right_rectangle) unit_grid_lat unit_grid_long =
     Inr (Some right_rectangle_mask) \<and>
   right_rectangle_mask ! 2 ! 2 = True \<and>
   get_selection ray_casting unit_layer
       (Multiple [polygon_selection inner_rectangle, polygon_selection right_rectangle]) =
     Inr \<lparr>ma_data = zero_slice, ma_mask = Some both_rectangles_mask\<rparr> \<and>
   both_rectangles_mask ! 2 ! 2 = False"
proof -
  have "right_rectangle_mask ! 2 ! 2 = True" by code_simp
  moreover have "both_rectangles_mask ! 2 ! 2 = False" by code_simp
  ultimately show ?thesis
    using find_selection_right_rectangle get_selection_both_rectangles by simp
qed

text \<open>
  Claim C1 as amended: for a query of two or more shapes on which \<open>get_selection\<close>
  returns, every shape has a mask, and the returned mask has the shape of the grid and
  is the logical AND of the shapes' exclusion masks: a cell is excluded if and only if
  every shape excludes it (it is included as soon as it lies inside one shape). So
  combining shapes is at most as restrictive as any single shape.
\<close>

theorem get_selection_mask_is_and_of_exclusion_masks:
  assumes "get_selection cp l (Multiple ss) = Inr r" and "1 < length ss"
  shows "\<exists>mc. ma_mask r = Some mc \<and> length mc = length (coords_lat l) \<and>
           (\<forall>s\<in>set ss. \<exists>m. find_selection cp s (coords_lat l) (coords_long l) = Inr (Some m)) \<and>
           (\<forall>j<length (coords_lat l). length (mc ! j) = length (coords_long l) \<and>
              (\<forall>i<length (coords_long l).
                 mc ! j ! i =
                   (\<forall>s\<in>set ss. \<exists>m. find_selection cp s (coords_lat l) (coords_long l) = Inr (Some m)
                       \<and> m ! j ! i)))"
proof -
  let ?lat = "coords_lat l" and ?long = "coords_long l"
  from assms(1) obtain res where
    sm: "selection_mask cp (Multiple ss) ?lat ?long = Inr res" and r: "ma_mask r = res"
    by (auto simp: get_selection_def split: sum.splits)
  from assms(2) obtain s s2 rest where ss: "ss = s # s2 # rest"
    by (cases ss; cases "tl ss") auto
  from sm ss obtain m0o where
    fs: "find_selection cp s ?lat ?long = Inr m0o"
    and cm: "combine_masks cp m0o (s2 # rest) ?lat ?long = Inr res"
    by (auto split: sum.splits)
  from cm obtain m0 where m0: "m0o = Some m0"
    by (cases m0o) (auto split: sum.splits)
  from fs m0 have fs0: "find_selection cp s ?lat ?long = Inr (Some m0)" by simp
  note sh0 = find_selection_shape [OF fs0]
  from cm m0 have cm0: "combine_masks cp (Some m0) (s2 # rest) ?lat ?long = Inr res" by simp
  from combine_masks_result [OF cm0 conjunct1 [OF sh0] conjunct2 [OF sh0]]
  obtain mc where mc: "res = Some mc" "length mc = length ?lat"
      "\<forall>row\<in>set mc. length row = length ?long"
      "\<forall>s\<in>set (s2 # rest). \<exists>m. find_selection cp s ?lat ?long = Inr (Some m)"
      "\<forall>j<length ?lat. \<forall>i<length ?long.
              mc ! j ! i = (m0 ! j ! i \<and>
                (\<forall>s\<in>set (s2 # rest). \<exists>m. find_selection cp s ?lat ?long = Inr (Some m) \<and> m ! j ! i))"
    by blast
  have all: "\<forall>s\<in>set ss. \<exists>m. find_selection cp s ?lat ?long = Inr (Some m)"
    using fs0 mc(4) ss by simp
  have rows: "length (mc ! j) = length ?long" if "j < length ?lat" for j
    using that mc(2,3) by (metis nth_mem)
  have cells: "mc ! j ! i =
      (\<forall>s\<in>set ss. \<exists>m. find_selection cp s ?lat ?long = Inr (Some m) \<and> m ! j ! i)"
    if "j < length ?lat" "i < length ?long" for j i
    using mc(5) that fs0 ss by auto
  from r mc(1,2) all rows cells show ?thesis by blast
qed

theorem get_selection_mask_is_and_of_exclusion_masks_witness:
  "get_selection ray_casting unit_layer
       (Multiple [polygon_selection inner_rectangle, polygon_selection right_rectangle]) =
     Inr \<lparr>ma_data = zero_slice, ma_mask = Some both_rectangles_mask\<rparr> \<and>
   1 < length [polygon_selection inner_rectangle, polygon_selection right_rectangle] \<and>
   both_rectangles_mask ! 2 ! 2 =
     (\<forall>s\<in>set [polygon_selection inner_rectangle, polygon_selection right_rectangle].
        \<exists>m. find_selection ray_casting s (coords_lat unit_layer) (coords_long unit_layer) = Inr (Some m)
          \<and> m ! 2 ! 2)"
proof -
  let ?ss = "[polygon_selection inner_rectangle, polygon_selection right_rectangle]"
  note g = get_selection_both_rectangles [of ray_casting]
  have n: "1 < length ?ss" by simp
  have len: "length (coords_lat unit_layer) = 5" "length (coords_long unit_layer) = 5"
    by (simp_all add: unit_layer_def unit_grid_lat_def unit_grid_long_def)
  from get_selection_mask_is_and_of_exclusion_masks [OF g n]
  have "\<forall>j<5. \<forall>i<5. both_rectangles_mask ! j ! i =
     (\<forall>s\<in>set ?ss.
        \<exists>m. find_selection ray_casting s (coords_lat unit_layer) (coords_long unit_layer) = Inr (Some m)
          \<and> m ! j ! i)"
    by (simp add: len)
  moreover have "(2::nat) < 5" by simp
  ultimately have "both_rectangles_mask ! 2 ! 2 =
     (\<forall>s\<in>set ?ss.
        \<exists>m. find_selection ray_casting s (coords_lat unit_layer) (coords_long unit_layer) = Inr (Some m)
          \<and> m ! 2 ! 2)"
    by blast
  with g n show ?thesis by blast
qed

section \<open>Selections of a wind layer\<close>

text \<open>
  Claim C10: whenever \<open>WindLayer.get_selection\<close> returns, both elements of the pair are
  the same masked view of the u component of the current frame, and the v component
  plays no part: replacing it leaves the result unchanged.
\<close>

theorem wind_get_selection_returns_u_twice:
  assumes "wind_get_selection cp w sel = Inr (a, b)"
  shows "getitem (wind_u w) (wind_frame w) = Inr (ma_data a) \<and> b = a \<and>
         wind_get_selection cp (w\<lparr>wind_v := v'\<rparr>) sel = Inr (a, b)"
  using assms by (auto simp: wind_get_selection_def split: sum.splits)

theorem wind_get_selection_returns_u_twice_witness:
  "wind_get_selection ray_casting unit_wind_layer (Single (polygon_selection inner_rectangle)) =
     Inr (\<lparr>ma_data = zero_slice, ma_mask = Some inner_rectangle_mask\<rparr>,
          \<lparr>ma_data = zero_slice, ma_mask = Some inner_rectangle_mask\<rparr>) \<and>
   getitem (wind_u unit_wind_layer) (wind_frame unit_wind_layer) = Inr zero_slice \<and>
   getitem (wind_v unit_wind_layer) (wind_frame unit_wind_layer) = Inr one_slice \<and>
   zero_slice \<noteq> one_slice \<and>
   wind_get_selection ray_casting (unit_wind_layer\<lparr>wind_v := []\<rparr>)
       (Single (polygon_selection inner_rectangle)) =
     wind_get_selection ray_casting unit_wind_layer (Single (polygon_selection inner_rectangle))"
proof -
  have g: "wind_get_selection ray_casting unit_wind_layer (Single (polygon_selection inner_rectangle)) =
     Inr (\<lparr>ma_data = zero_slice, ma_mask = Some inner_rectangle_mask\<rparr>,
          \<lparr>ma_data = zero_slice, ma_mask = Some inner_rectangle_mask\<rparr>)"
    by (simp add: wind_get_selection_def unit_wind_layer_def find_selection_inner_rectangle
        getitem_def py_index_def)
  have v: "getitem (wind_v unit_wind_layer) (wind_frame unit_wind_layer) = Inr one_slice"
    by (simp add: unit_wind_layer_def getitem_def py_index_def)
  have ne: "zero_slice \<noteq> one_slice" by code_simp
  from wind_get_selection_returns_u_twice [OF g, of "[]"] g v ne show ?thesis by simp
qed

section \<open>The frame cache\<close>

subsection \<open>A frame change\<close>



subsection \<open>Prefetch requests of a frame change\<close>

text \<open>
  Claim C5 says that every \<open>update_frame(i)\<close>, hit or miss, requests a prefetch of the
  frames beyond \<open>i\<close>. The call of \<open>buffer_frames(i+1, 50)\<close> stands in the \<open>else\<close> branch of
  the cache test, and the call with 40 under \<open>if i % 10 == 0\<close>: a hit at frame 1 of a
  fully cached layer requests nothing.
\<close>

theorem cache_hit_requests_no_prefetch:
  "update_frame name_slice (Some 1) cached_layer =
     Inr (cached_layer\<lparr>frame := 1, url := ''frame 1''\<rparr>) \<and>
   buffer_requests (cached_layer\<lparr>frame := 1, url := ''frame 1''\<rparr>) = []"
  by code_simp

text \<open>
  Claim C5 as amended: a returning \<open>update_frame(i)\<close> requests a prefetch of 40 frames
  from \<open>i+1\<close> when \<open>i\<close> is a multiple of 10, and then a prefetch of 50 frames from \<open>i+1\<close>
  when the cache entry at \<open>i\<close> was absent; it requests nothing else. A hit at an index
  that is not a multiple of 10 requests no prefetch.
\<close>

theorem update_frame_prefetch_requests:
  assumes "update_frame render (Some i) l = Inr l'"
  shows "buffer_requests l' =
           buffer_requests l @ (if i mod 10 = 0 then [(i + 1, 40)] else []) @
             (if getitem (cache l) i = Inr None then [(i + 1, 50)] else [])"
  using assms
  by (auto simp: update_frame_def Let_def call_buffer_frames_def getitem_def
      split: sum.splits option.splits if_splits)

theorem update_frame_prefetch_requests_witness:
  "\<exists>l'. update_frame name_slice (Some 10) twelve_frame_layer = Inr l' \<and>
      buffer_requests l' = [(11, 40), (11, 50)]"
proof -
  obtain l' where l': "update_frame name_slice (Some 10) twelve_frame_layer = Inr l'"
    by (simp add: update_frame_def Let_def call_buffer_frames_def getitem_def py_index_def
        twelve_frame_layer_def)
  have c: "getitem (cache twelve_frame_layer) 10 = Inr None" by code_simp
  have b: "buffer_requests twelve_frame_layer = []" by code_simp
  from update_frame_prefetch_requests [OF l'] c b l' show ?thesis by simp
qed

subsection \<open>Present entries\<close>





section \<open>Raster normalisation\<close>

subsection \<open>Minimum and maximum of the values that are not NaN\<close>











subsection \<open>Exact arithmetic on the concrete slices\<close>



subsection \<open>The normalised slice\<close>




section \<open>Arrows of the geojson method\<close>

lemma cos_plus_pi_plus: "cos (x + (radians 270 - radians 50)) = cos (x + pi + radians 40)"
  by (rule arg_cong [where f = cos]) (simp add: radians_def field_simps)

lemma sin_plus_pi_plus: "sin (x + (radians 270 - radians 50)) = sin (x + pi + radians 40)"
  by (rule arg_cong [where f = sin]) (simp add: radians_def field_simps)

lemma angle_320: "x + (radians 270 + radians 50) = (x + pi - radians 40) + pi"
  by (simp add: radians_def field_simps)

lemma cos_320: "cos (x + (radians 270 + radians 50)) = - cos (x + pi - radians 40)"
  unfolding angle_320 by (rule cos_periodic_pi)

lemma sin_320: "sin (x + (radians 270 + radians 50)) = - sin (x + pi - radians 40)"
  unfolding angle_320 by (rule sin_periodic_pi)

lemma calc_arrow_points:
  "calc_arrow u v long lat autoscale scale =
     (let \<theta> = arctan2 v u;
          len = (if autoscale then scale * sqrt \<bar>u * v\<bar> else scale);
          tip = (long + len / 2 * cos \<theta>, lat + len / 2 * sin \<theta>)
      in [(long - len / 2 * cos \<theta>, lat - len / 2 * sin \<theta>), tip,
          spec_barb u v long lat autoscale scale 40, tip,
          spec_barb u v long lat autoscale scale (- 40)])"
proof -
  have m: "radians (- 40) = - radians 40" by (simp add: radians_def)
  show ?thesis
    by (simp add: calc_arrow_def spec_barb_def Let_def cos_plus_pi_plus sin_plus_pi_plus
        cos_320 sin_320 m mult.commute)
qed

lemma cos_40_50: "cos (radians 50) < cos (radians 40)"
proof (rule cos_monotone_0_pi)
  show "0 \<le> radians 40" by (simp add: radians_def)
  show "radians 40 < radians 50" by (simp add: radians_def)
  show "radians 50 \<le> pi" by (simp add: radians_def)
qed

lemma arctan2_east: "arctan2 0 1 = 0"
  by (simp add: arctan2_def)

text \<open>
  Claim C8 says that the two barbs leave the tip at 50 degrees on either side of the
  reverse shaft direction. \<open>calc_arrow\<close> adds and subtracts \<open>head_angle = 50\<close> at 270
  degrees, not at 180: for the vector (1, 0) at the origin with the fixed length 1,
  neither barb end point of the code is a barb end point at plus or minus 50 degrees
  from the reverse shaft direction.
\<close>

theorem barbs_not_at_50_degrees:
  "calc_arrow 1 0 0 0 False 1 ! 2 \<noteq> spec_barb 1 0 0 0 False 1 50 \<and>
   calc_arrow 1 0 0 0 False 1 ! 2 \<noteq> spec_barb 1 0 0 0 False 1 (- 50) \<and>
   calc_arrow 1 0 0 0 False 1 ! 4 \<noteq> spec_barb 1 0 0 0 False 1 50 \<and>
   calc_arrow 1 0 0 0 False 1 ! 4 \<noteq> spec_barb 1 0 0 0 False 1 (- 50)"
proof -
  have a: "cos (pi + radians 40) = - cos (radians 40)" "cos (pi - radians 40) = - cos (radians 40)"
    "cos (pi + radians 50) = - cos (radians 50)" "cos (pi - radians 50) = - cos (radians 50)"
    by (simp_all add: cos_add cos_diff)
  have m: "radians (- 40) = - radians 40" "radians (- 50) = - radians 50"
    by (simp_all add: radians_def)
  show ?thesis
    using cos_40_50
    by (simp add: calc_arrow_points spec_barb_def Let_def arctan2_east a m)
qed

text \<open>
  Claim C8 as amended: for every sample \<open>(u, v)\<close> at a grid point the arrow is the
  5-point line string tail, tip, left barb, tip, right barb, where tail and tip are the
  centre minus and plus \<open>length/2 * (cos \<theta>, sin \<theta>)\<close> with \<open>\<theta> = arctan2(v, u)\<close>, each barb
  starts at the tip and has 10% of the arrow length, and the barbs point at 40 degrees
  on either side of the reverse shaft direction (50 degrees measured from the
  perpendicular at 270 degrees); the length is \<open>scale * sqrt(|u * v|)\<close> when autoscaling
  and \<open>scale\<close> otherwise.
\<close>

theorem calc_arrow_is_five_point_line_string:
  "calc_arrow u v long lat autoscale scale =
     (let \<theta> = arctan2 v u;
          len = (if autoscale then scale * sqrt \<bar>u * v\<bar> else scale);
          tip = (long + len / 2 * cos \<theta>, lat + len / 2 * sin \<theta>)
      in [(long - len / 2 * cos \<theta>, lat - len / 2 * sin \<theta>), tip,
          spec_barb u v long lat autoscale scale 40, tip,
          spec_barb u v long lat autoscale scale (- 40)])"
  by (rule calc_arrow_points)

end
